theory Spec2Isabelle
  imports Complex_Main "HOL-Library.Char_ord" "HOL-Library.List_Lexorder"
begin

section \<open>Rows of the backing store and shapes returned to the pages\<close>

text \<open>
  The layer in \<^verbatim>\<open>app/lib/data.ts\<close> reads three relations. A row is a record with the
  columns of its relation; TypeScript's field names are kept behind a prefix per record,
  since a field name is a constant of the whole theory. Amounts are integer cents.
  A JavaScript number that can be a fraction (the amount of an invoice form) is a
  rational; one that is a whole number by construction is an \<open>int\<close> or a \<open>nat\<close>.
  JavaScript adds whole numbers exactly below \<open>2 ^ 53\<close>, so sums of cents are sums of
  integers; a quotient is the exact rational, of which JavaScript holds the nearest
  double.
\<close>

record Revenue =
  month :: string
  revenue :: int

record invoice =
  i_id :: string
  i_customer_id :: string
  i_amount :: int
  i_status :: string
  i_date :: string

record customer =
  c_id :: string
  c_name :: string
  c_email :: string
  c_image_url :: string

text \<open>The object built by the \<^verbatim>\<open>map\<close> of \<^verbatim>\<open>fetchLatestInvoices\<close>; an optional
  field is \<^verbatim>\<open>undefined\<close> when it is \<open>None\<close>.\<close>

record LatestInvoice =
  li_id :: string
  li_amount :: string
  li_name :: "string option"
  li_email :: "string option"
  li_image_url :: "string option"

text \<open>The object returned by \<^verbatim>\<open>fetchCardData\<close>.\<close>

record CardData =
  numberOfCustomers :: nat
  numberOfInvoices :: nat
  totalPaidInvoices :: string
  totalPendingInvoices :: string

text \<open>A row of the select of \<^verbatim>\<open>fetchFilteredInvoices\<close>: four invoice columns and the
  embedded customer, \<^verbatim>\<open>null\<close> when the invoice has none.\<close>

record customer_embed =
  e_name :: string
  e_email :: string
  e_image_url :: string

record InvoicesTable =
  it_id :: string
  it_amount :: int
  it_date :: string
  it_status :: string
  it_customers :: "customer_embed option"

text \<open>The row of the count statement. The driver delivers the count as the decimal text
  of a natural number; the row holds that number.\<close>

record count_row =
  count :: nat

text \<open>\<^verbatim>\<open>InvoiceForm\<close>: with \<open>'n = int\<close> the row as selected, with \<open>'n = rat\<close> the
  object returned by \<^verbatim>\<open>fetchInvoiceById\<close>.\<close>

record 'n InvoiceForm =
  f_id :: string
  f_customer_id :: string
  f_amount :: 'n
  f_status :: string

record CustomerField =
  cf_id :: string
  cf_name :: string

text \<open>\<^verbatim>\<open>CustomersTableType\<close>: with \<open>'m = int\<close> the row as selected (totals in cents),
  with \<open>'m = string\<close> the object returned by \<^verbatim>\<open>fetchFilteredCustomers\<close>.\<close>

record 'm CustomersTableType =
  ct_id :: string
  ct_name :: string
  ct_email :: string
  ct_image_url :: string
  ct_total_invoices :: nat
  ct_total_pending :: 'm
  ct_total_paid :: 'm


section \<open>The two clients\<close>

text \<open>What a \<^verbatim>\<open>throw\<close> carries: an \<^verbatim>\<open>Error\<close> made by the layer or by a client, or the
  \<^verbatim>\<open>TypeError\<close> of reading a property of \<^verbatim>\<open>null\<close> or \<^verbatim>\<open>undefined\<close>.\<close>

datatype js_exn = Error string | TypeError string

text \<open>An awaited promise either rejects, and the \<^verbatim>\<open>await\<close> throws, or resolves.\<close>

datatype 'a awaited = Rejected js_exn | Resolved 'a

text \<open>The table client resolves to a pair \<^verbatim>\<open>{data, error}\<close>; each may be \<^verbatim>\<open>null\<close>.\<close>

record PostgrestError =
  message :: string

record 'a sb_response =
  data :: "'a list option"
  error :: "PostgrestError option"

text \<open>The query a builder chain describes. Each builder method fills one part.\<close>

record sb_query =
  q_table :: string
  q_columns :: string
  q_order :: "(string \<times> bool) option"
  q_limit :: "int option"
  q_range :: "(int \<times> int) option"
  q_in :: "(string \<times> string list) option"
  q_or :: "string option"

definition sb_from :: "string \<Rightarrow> sb_query" where
  "sb_from t = \<lparr>q_table = t, q_columns = [], q_order = None, q_limit = None,
                 q_range = None, q_in = None, q_or = None\<rparr>"

definition sb_select :: "string \<Rightarrow> sb_query \<Rightarrow> sb_query" where
  "sb_select cols q = q\<lparr>q_columns := cols\<rparr>"

definition sb_order :: "string \<Rightarrow> bool \<Rightarrow> sb_query \<Rightarrow> sb_query" where
  "sb_order col ascending q = q\<lparr>q_order := Some (col, ascending)\<rparr>"

definition sb_limit :: "int \<Rightarrow> sb_query \<Rightarrow> sb_query" where
  "sb_limit n q = q\<lparr>q_limit := Some n\<rparr>"

definition sb_range :: "int \<Rightarrow> int \<Rightarrow> sb_query \<Rightarrow> sb_query" where
  "sb_range lo hi q = q\<lparr>q_range := Some (lo, hi)\<rparr>"

definition sb_in :: "string \<Rightarrow> string list \<Rightarrow> sb_query \<Rightarrow> sb_query" where
  "sb_in col vals q = q\<lparr>q_in := Some (col, vals)\<rparr>"

definition sb_or :: "string \<Rightarrow> sb_query \<Rightarrow> sb_query" where
  "sb_or f q = q\<lparr>q_or := Some f\<rparr>"

text \<open>The SQL client takes one of four statement templates and the values spliced into it,
  and resolves to an object holding \<^verbatim>\<open>rows\<close>.\<close>

datatype sql_template = InvoiceCountSql | InvoiceByIdSql | CustomersSql | CustomersTableSql

datatype sql_stmt = SqlStmt sql_template "string list"

record 'a QueryResult =
  rows :: "'a list"

text \<open>
  The backend is everything outside the layer: for each query a function can issue, what
  the awaited client call yields. One field per relation and row shape of the table
  client, one per statement template of the SQL client.
\<close>

record backend =
  from_revenue :: "sb_query \<Rightarrow> Revenue sb_response awaited"
  from_invoices :: "sb_query \<Rightarrow> invoice sb_response awaited"
  from_customers :: "sb_query \<Rightarrow> customer sb_response awaited"
  from_invoices_embed :: "sb_query \<Rightarrow> InvoicesTable sb_response awaited"
  sql_count :: "sql_stmt \<Rightarrow> count_row QueryResult awaited"
  sql_invoice :: "sql_stmt \<Rightarrow> int InvoiceForm QueryResult awaited"
  sql_customers :: "sql_stmt \<Rightarrow> CustomerField QueryResult awaited"
  sql_customers_table :: "sql_stmt \<Rightarrow> int CustomersTableType QueryResult awaited"


section \<open>Effects: requests, the console, exceptions\<close>

datatype request = Supabase sb_query | Sql sql_stmt

text \<open>What \<^verbatim>\<open>console.error\<close> is given after its label: the caught exception, or the
  structured error of the table client.\<close>

datatype logged = Caught js_exn | Reported PostgrestError

text \<open>
  The observable steps of a call, in order: a request leaves when its \<^verbatim>\<open>await\<close> starts
  and the function resumes when it settles; the console receives a line.
\<close>

datatype event =
    Issued request
  | Settled request
  | ConsoleError string logged
  | ConsoleLog string "InvoicesTable list option"

text \<open>A computation is the events it produced and how it ended: \<open>Inl\<close> a thrown
  exception, \<open>Inr\<close> the returned value.\<close>

type_synonym 'a io = "event list \<times> (js_exn + 'a)"

definition io_return :: "'a \<Rightarrow> 'a io" where
  "io_return x = ([], Inr x)"

definition io_throw :: "js_exn \<Rightarrow> 'a io" where
  "io_throw e = ([], Inl e)"

definition io_bind :: "'a io \<Rightarrow> ('a \<Rightarrow> 'b io) \<Rightarrow> 'b io" where
  "io_bind m f =
     (case snd m of
        Inl e \<Rightarrow> (fst m, Inl e)
      | Inr x \<Rightarrow> (fst m @ fst (f x), snd (f x)))"

definition try_catch :: "'a io \<Rightarrow> (js_exn \<Rightarrow> 'a io) \<Rightarrow> 'a io" where
  "try_catch m h =
     (case snd m of
        Inl e \<Rightarrow> (fst m @ fst (h e), snd (h e))
      | Inr x \<Rightarrow> (fst m, Inr x))"

definition console_error :: "string \<Rightarrow> logged \<Rightarrow> unit io" where
  "console_error label v = ([ConsoleError label v], Inr ())"

definition console_log :: "string \<Rightarrow> InvoicesTable list option \<Rightarrow> unit io" where
  "console_log label v = ([ConsoleLog label v], Inr ())"

definition await_supabase :: "(sb_query \<Rightarrow> 'a awaited) \<Rightarrow> sb_query \<Rightarrow> 'a io" where
  "await_supabase client q =
     ([Issued (Supabase q), Settled (Supabase q)],
      case client q of Rejected e \<Rightarrow> Inl e | Resolved v \<Rightarrow> Inr v)"

definition await_sql :: "(sql_stmt \<Rightarrow> 'a awaited) \<Rightarrow> sql_stmt \<Rightarrow> 'a io" where
  "await_sql client s =
     ([Issued (Sql s), Settled (Sql s)],
      case client s of Rejected e \<Rightarrow> Inl e | Resolved v \<Rightarrow> Inr v)"


section \<open>The currency formatter\<close>

definition digit_char :: "nat \<Rightarrow> char" where
  "digit_char d = ''0123456789'' ! (d mod 10)"

fun decimal :: "nat \<Rightarrow> string" where
  "decimal n = (if n < 10 then [digit_char n] else decimal (n div 10) @ [digit_char n])"

fun grouped :: "nat \<Rightarrow> string" where
  "grouped n =
     (if n < 1000 then decimal n
      else grouped (n div 1000) @ '','' @
           [digit_char (n div 100), digit_char (n div 10), digit_char n])"

text \<open>
  Modelled from the spec: \<^verbatim>\<open>formatCurrency\<close> is imported from \<^verbatim>\<open>./utils\<close>, which is not
  among the sources. The spec describes it as a pure function from integer cents to a
  localized currency display string and shows \<^verbatim>\<open>$1,000.00\<close> for 100000, \<^verbatim>\<open>$500.00\<close> for
  50000 and \<^verbatim>\<open>$0.00\<close> for 0: a dollar sign, the dollars in groups of three digits, a point
  and two digits of cents, behind a minus sign when the amount is negative.
\<close>

definition formatCurrency :: "int \<Rightarrow> string" where
  "formatCurrency amount =
     (let c = nat \<bar>amount\<bar> in
      (if amount < 0 then ''-'' else []) @ ''$'' @ grouped (c div 100) @ ''.'' @
      [digit_char (c div 10), digit_char c])"


section \<open>The query functions of \<^verbatim>\<open>app/lib/data.ts\<close>\<close>

text \<open>A template literal that spans lines holds the line feeds and the indentation.\<close>

definition newline :: string where
  "newline = [CHR 0x0A]"

subsection \<open>\<^verbatim>\<open>fetchRevenue\<close>\<close>

definition fetchRevenue :: "backend \<Rightarrow> Revenue list io" where
  "fetchRevenue b =
     try_catch
       (io_bind (await_supabase (from_revenue b)
                   (sb_select ''month, revenue'' (sb_from ''revenue''))) (\<lambda>r.
          case error r of
            Some e \<Rightarrow> io_throw (Error (message e))
          | None \<Rightarrow>
              (case data r of
                 None \<Rightarrow> io_throw (Error ''No se encontraron datos en la tabla 'revenue'.'')
               | Some d \<Rightarrow> io_return d)))
       (\<lambda>err.
          io_bind (console_error ''Database Error:'' (Caught err)) (\<lambda>_.
          io_throw (Error ''Failed to fetch revenue data.'')))"

subsection \<open>\<^verbatim>\<open>fetchLatestInvoices\<close>\<close>

definition latest_invoices_columns :: string where
  "latest_invoices_columns =
     newline @ ''        amount, '' @ newline @ ''        id,'' @ newline @
     ''        customer_id, '' @ newline @ ''        date'' @ newline @ ''      ''"

text \<open>The \<^verbatim>\<open>find\<close> on the customers runs for the first invoice at once, so with
  \<^verbatim>\<open>customers\<close> being \<^verbatim>\<open>null\<close> the \<^verbatim>\<open>map\<close> throws a \<^verbatim>\<open>TypeError\<close>; the invoices are
  not empty at that point.\<close>

definition fetchLatestInvoices :: "backend \<Rightarrow> LatestInvoice list io" where
  "fetchLatestInvoices b =
     try_catch
       (io_bind (await_supabase (from_invoices b)
                   (sb_limit 5 (sb_order ''date'' False
                      (sb_select latest_invoices_columns (sb_from ''invoices''))))) (\<lambda>r.
          case error r of
            Some e \<Rightarrow> io_throw (Error (''Supabase query failed: '' @ message e))
          | None \<Rightarrow>
              (case data r of
                 None \<Rightarrow> io_return []
               | Some d \<Rightarrow>
                   if length d = 0 then io_return []
                   else
                     (let customerIds = map i_customer_id d in
                      io_bind (await_supabase (from_customers b)
                                 (sb_in ''id'' customerIds
                                    (sb_select ''id, name, email, image_url''
                                       (sb_from ''customers'')))) (\<lambda>r2.
                        case error r2 of
                          Some customerError \<Rightarrow>
                            io_throw (Error (''Failed to fetch customers: '' @
                                             message customerError))
                        | None \<Rightarrow>
                            (case data r2 of
                               None \<Rightarrow>
                                 io_throw (TypeError
                                   ''Cannot read properties of null (reading 'find')'')
                             | Some customers \<Rightarrow>
                                 io_return
                                   (map (\<lambda>invoice.
                                      let customer =
                                            find (\<lambda>c. c_id c = i_customer_id invoice) customers
                                      in \<lparr>li_id = i_id invoice,
                                          li_amount = formatCurrency (i_amount invoice),
                                          li_name = map_option c_name customer,
                                          li_email = map_option c_email customer,
                                          li_image_url = map_option c_image_url customer\<rparr>)
                                      d)))))))
       (\<lambda>err.
          io_bind (console_error ''Database Error:'' (Caught err)) (\<lambda>_.
          io_throw (Error ''Failed to fetch the latest invoices.'')))"

subsection \<open>\<^verbatim>\<open>fetchCardData\<close>\<close>

text \<open>Three \<^verbatim>\<open>await\<close> statements one after the other, then the three error checks, then
  the counts and the two sums, both taken over \<^verbatim>\<open>invoiceData\<close>, the rows of the first
  query. The rows of the third query are not read.\<close>

definition fetchCardData :: "backend \<Rightarrow> CardData io" where
  "fetchCardData b =
     try_catch
       (io_bind (await_supabase (from_invoices b)
                   (sb_select ''*'' (sb_from ''invoices''))) (\<lambda>r1.
        io_bind (await_supabase (from_customers b)
                   (sb_select ''*'' (sb_from ''customers''))) (\<lambda>r2.
        io_bind (await_supabase (from_invoices b)
                   (sb_select ''status, amount'' (sb_from ''invoices''))) (\<lambda>r3.
          case error r1 of
            Some invoiceError \<Rightarrow>
              io_throw (Error (''Error fetching invoices: '' @ message invoiceError))
          | None \<Rightarrow>
          (case error r2 of
            Some customerError \<Rightarrow>
              io_throw (Error (''Error fetching customers: '' @ message customerError))
          | None \<Rightarrow>
          (case error r3 of
            Some invoiceStatusError \<Rightarrow>
              io_throw (Error (''Error fetching invoice statuses: '' @
                               message invoiceStatusError))
          | None \<Rightarrow>
              (let invoiceData = data r1;
                   customerCountData = data r2;
                   numberOfInvoices =
                     (case invoiceData of Some d \<Rightarrow> length d | None \<Rightarrow> 0);
                   numberOfCustomers =
                     (case customerCountData of Some d \<Rightarrow> length d | None \<Rightarrow> 0);
                   totalPaidInvoices = formatCurrency
                     (case invoiceData of
                        Some d \<Rightarrow>
                          foldl (\<lambda>sum curr. sum + i_amount curr) 0
                            (filter (\<lambda>invoice. i_status invoice = ''paid'') d)
                      | None \<Rightarrow> 0);
                   totalPendingInvoices = formatCurrency
                     (case invoiceData of
                        Some d \<Rightarrow>
                          foldl (\<lambda>sum curr. sum + i_amount curr) 0
                            (filter (\<lambda>invoice. i_status invoice = ''pending'') d)
                      | None \<Rightarrow> 0)
               in io_return
                    \<lparr>numberOfCustomers = numberOfCustomers,
                     numberOfInvoices = numberOfInvoices,
                     totalPaidInvoices = totalPaidInvoices,
                     totalPendingInvoices = totalPendingInvoices\<rparr>)))))))
       (\<lambda>err.
          io_bind (console_error ''Database Error:'' (Caught err)) (\<lambda>_.
          io_throw (Error ''Failed to fetch card data.'')))"

subsection \<open>\<^verbatim>\<open>fetchFilteredInvoices\<close>\<close>

definition ITEMS_PER_PAGE :: int where
  "ITEMS_PER_PAGE = 6"

definition filtered_invoices_columns :: string where
  "filtered_invoices_columns =
     newline @ ''        id,'' @ newline @ ''        amount,'' @ newline @
     ''        date,'' @ newline @ ''        status,'' @ newline @
     ''        customers ('' @ newline @ ''          name,'' @ newline @
     ''          email,'' @ newline @ ''          image_url'' @ newline @
     ''        )'' @ newline @ ''      ''"

text \<open>The template literal of \<^verbatim>\<open>filterCondition\<close> with the query spliced in.\<close>

definition or_condition :: "string \<Rightarrow> string" where
  "or_condition query =
     ''('' @ newline @
     ''      customers.name.ilike.%'' @ query @ ''%,'' @ newline @
     ''      customers.email.ilike.%'' @ query @ ''%,'' @ newline @
     ''      amount::text.ilike.%'' @ query @ ''%,'' @ newline @
     ''      date::text.ilike.%'' @ query @ ''%,'' @ newline @
     ''      status.ilike.%'' @ query @ ''%'' @ newline @
     ''    )''"

text \<open>
  A string is truthy when it is not empty, \<^verbatim>\<open>null\<close> is falsy. \<^verbatim>\<open>baseQuery.or(...)\<close> is
  called for its effect on the builder, which the \<^verbatim>\<open>await\<close> below then sends. The rows
  are returned as the client delivered them; \<^verbatim>\<open>data\<close> may be \<^verbatim>\<open>null\<close>.
\<close>

definition fetchFilteredInvoices ::
  "backend \<Rightarrow> string \<Rightarrow> int \<Rightarrow> InvoicesTable list option io" where
  "fetchFilteredInvoices b query currentPage =
     (let offset = (currentPage - 1) * ITEMS_PER_PAGE in
      try_catch
        (let filterCondition =
               (if query \<noteq> [] then Some (or_condition query) else None);
             baseQuery =
               sb_range offset (offset + ITEMS_PER_PAGE - 1)
                 (sb_order ''date'' False
                    (sb_select filtered_invoices_columns (sb_from ''invoices'')));
             baseQuery =
               (case filterCondition of
                  Some f \<Rightarrow> if f \<noteq> [] then sb_or f baseQuery else baseQuery
                | None \<Rightarrow> baseQuery)
         in io_bind (await_supabase (from_invoices_embed b) baseQuery) (\<lambda>r.
              case error r of
                Some e \<Rightarrow>
                  io_bind (console_error ''Supabase Error:'' (Reported e)) (\<lambda>_.
                  io_throw (Error ''Failed to fetch invoices.''))
              | None \<Rightarrow>
                  io_bind (console_log ''Fetched Invoices:'' (data r)) (\<lambda>_.
                  io_return (data r))))
        (\<lambda>err.
           io_bind (console_error ''Database Error:'' (Caught err)) (\<lambda>_.
           io_throw (Error ''Failed to fetch invoices.''))))"

subsection \<open>\<^verbatim>\<open>fetchInvoicesPages\<close>\<close>

text \<open>\<^verbatim>\<open>Number\<close> reads the count back from its decimal text.\<close>

definition Number :: "nat \<Rightarrow> rat" where
  "Number n = of_nat n"

definition fetchInvoicesPages :: "backend \<Rightarrow> string \<Rightarrow> int io" where
  "fetchInvoicesPages b query =
     try_catch
       (io_bind (await_sql (sql_count b)
                   (SqlStmt InvoiceCountSql
                      [''%'' @ query @ ''%'', ''%'' @ query @ ''%'', ''%'' @ query @ ''%'',
                       ''%'' @ query @ ''%'', ''%'' @ query @ ''%''])) (\<lambda>count_result.
          case rows count_result of
            [] \<Rightarrow>
              io_throw (TypeError ''Cannot read properties of undefined (reading 'count')'')
          | row # _ \<Rightarrow>
              (let totalPages = \<lceil>Number (count row) / of_int ITEMS_PER_PAGE\<rceil>
               in io_return totalPages)))
       (\<lambda>err.
          io_bind (console_error ''Database Error:'' (Caught err)) (\<lambda>_.
          io_throw (Error ''Failed to fetch total number of invoices.'')))"

subsection \<open>\<^verbatim>\<open>fetchInvoiceById\<close>\<close>

text \<open>\<^verbatim>\<open>invoice[0]\<close> of an empty array is \<^verbatim>\<open>undefined\<close>: \<open>None\<close>.\<close>

definition fetchInvoiceById :: "backend \<Rightarrow> string \<Rightarrow> rat InvoiceForm option io" where
  "fetchInvoiceById b ident =
     try_catch
       (io_bind (await_sql (sql_invoice b) (SqlStmt InvoiceByIdSql [ident])) (\<lambda>data_result.
          let invoice =
                map (\<lambda>invoice.
                       \<lparr>f_id = f_id invoice,
                        f_customer_id = f_customer_id invoice,
                        f_amount = of_int (f_amount invoice) / 100,
                        f_status = f_status invoice\<rparr>)
                    (rows data_result)
          in io_return (case invoice of [] \<Rightarrow> None | first # _ \<Rightarrow> Some first)))
       (\<lambda>err.
          io_bind (console_error ''Database Error:'' (Caught err)) (\<lambda>_.
          io_throw (Error ''Failed to fetch invoice.'')))"

subsection \<open>\<^verbatim>\<open>fetchCustomers\<close>\<close>


subsection \<open>\<^verbatim>\<open>fetchFilteredCustomers\<close>\<close>



section \<open>A reference backing store\<close>

text \<open>
  Modelled from the spec: the database and the two client libraries are outside the
  sources. The spec gives the store as the relations \<^verbatim>\<open>invoices\<close>, \<^verbatim>\<open>customers\<close> and
  \<^verbatim>\<open>revenue\<close>, the table client as select, filter, order and range operations that
  resolve to a \<^verbatim>\<open>{data, error}\<close> pair, and the SQL client as parameterized statements
  that resolve to row sets. The store below answers every query from its tables and
  never fails on the queries this layer issues. How the engine reads the text of an
  \<^verbatim>\<open>or\<close> filter is a field of the store.
\<close>

record store =
  tbl_invoices :: "invoice list"
  tbl_customers :: "customer list"
  tbl_revenue :: "Revenue list"
  or_filter :: "string \<Rightarrow> InvoicesTable \<Rightarrow> bool"

definition delivered :: "'a list \<Rightarrow> 'a sb_response awaited" where
  "delivered xs = Resolved \<lparr>data = Some xs, error = None\<rparr>"

definition refused :: "string \<Rightarrow> 'a sb_response awaited" where
  "refused m = Resolved \<lparr>data = None, error = Some \<lparr>message = m\<rparr>\<rparr>"

text \<open>\<^verbatim>\<open>range(lo, hi)\<close> keeps the rows at the positions \<open>lo\<close> to \<open>hi\<close>, both counted from
  0 and both included; \<^verbatim>\<open>limit(n)\<close> keeps the first \<open>n\<close> rows.\<close>

definition window :: "sb_query \<Rightarrow> 'a list \<Rightarrow> 'a list" where
  "window q xs =
     (let ys = (case q_range q of
                  None \<Rightarrow> xs
                | Some (lo, hi) \<Rightarrow> take (nat (hi - lo + 1)) (drop (nat lo) xs))
      in case q_limit q of None \<Rightarrow> ys | Some n \<Rightarrow> take (nat n) ys)"

definition well_ranged :: "sb_query \<Rightarrow> bool" where
  "well_ranged q = (case q_range q of None \<Rightarrow> True | Some (lo, hi) \<Rightarrow> 0 \<le> lo)"

text \<open>The layer orders by \<^verbatim>\<open>date\<close> only; dates are ISO texts, ordered as texts.\<close>

definition by_date :: "bool \<Rightarrow> ('a \<Rightarrow> string) \<Rightarrow> 'a list \<Rightarrow> 'a list" where
  "by_date ascending key xs = (if ascending then sort_key key xs else rev (sort_key key xs))"

definition embed_customer :: "customer list \<Rightarrow> invoice \<Rightarrow> InvoicesTable" where
  "embed_customer cs i =
     \<lparr>it_id = i_id i, it_amount = i_amount i, it_date = i_date i, it_status = i_status i,
      it_customers =
        map_option (\<lambda>c. \<lparr>e_name = c_name c, e_email = c_email c,
                           e_image_url = c_image_url c\<rparr>)
          (find (\<lambda>c. c_id c = i_customer_id i) cs)\<rparr>"

definition store_from_revenue :: "store \<Rightarrow> sb_query \<Rightarrow> Revenue sb_response awaited" where
  "store_from_revenue s q =
     (if q_order q = None \<and> q_in q = None \<and> q_or q = None \<and> well_ranged q
      then delivered (window q (tbl_revenue s))
      else refused ''query not supported'')"

definition store_from_invoices :: "store \<Rightarrow> sb_query \<Rightarrow> invoice sb_response awaited" where
  "store_from_invoices s q =
     (if q_in q = None \<and> q_or q = None \<and> well_ranged q
      then case q_order q of
             None \<Rightarrow> delivered (window q (tbl_invoices s))
           | Some (col, ascending) \<Rightarrow>
               if col = ''date''
               then delivered (window q (by_date ascending i_date (tbl_invoices s)))
               else refused ''query not supported''
      else refused ''query not supported'')"

definition store_from_customers :: "store \<Rightarrow> sb_query \<Rightarrow> customer sb_response awaited" where
  "store_from_customers s q =
     (if q_order q = None \<and> q_or q = None \<and> well_ranged q
      then case q_in q of
             None \<Rightarrow> delivered (window q (tbl_customers s))
           | Some (col, vals) \<Rightarrow>
               if col = ''id''
               then delivered (window q (filter (\<lambda>c. c_id c \<in> set vals) (tbl_customers s)))
               else refused ''query not supported''
      else refused ''query not supported'')"

definition store_from_invoices_embed ::
  "store \<Rightarrow> sb_query \<Rightarrow> InvoicesTable sb_response awaited" where
  "store_from_invoices_embed s q =
     (if q_in q = None \<and> well_ranged q
      then
        (let joined = map (embed_customer (tbl_customers s)) (tbl_invoices s);
             kept = (case q_or q of None \<Rightarrow> joined | Some f \<Rightarrow> filter (or_filter s f) joined)
         in case q_order q of
              None \<Rightarrow> delivered (window q kept)
            | Some (col, ascending) \<Rightarrow>
                if col = ''date''
                then delivered (window q (by_date ascending it_date kept))
                else refused ''query not supported'')
      else refused ''query not supported'')"

text \<open>\<^verbatim>\<open>ILIKE\<close>: \<^verbatim>\<open>%\<close> stands for any run of characters, \<^verbatim>\<open>_\<close> for any one character,
  letters match without regard to case. The escape character is not modelled.\<close>

definition to_lower :: "char \<Rightarrow> char" where
  "to_lower c =
     (case map_of (zip ''ABCDEFGHIJKLMNOPQRSTUVWXYZ'' ''abcdefghijklmnopqrstuvwxyz'') c of
        Some l \<Rightarrow> l
      | None \<Rightarrow> c)"

fun like :: "string \<Rightarrow> string \<Rightarrow> bool" where
  "like [] t = (t = [])"
| "like (p # ps) [] = (p = CHR ''%'' \<and> like ps [])"
| "like (p # ps) (c # cs) =
     (if p = CHR ''%'' then like ps (c # cs) \<or> like (p # ps) cs
      else (p = CHR ''_'' \<or> p = c) \<and> like ps cs)"

definition ilike :: "string \<Rightarrow> string \<Rightarrow> bool" where
  "ilike txt pattern = like (map to_lower pattern) (map to_lower txt)"

definition text_of_int :: "int \<Rightarrow> string" where
  "text_of_int n = (if n < 0 then ''-'' else []) @ decimal (nat \<bar>n\<bar>)"

text \<open>The rows the count statement counts: the join of invoices and customers on the
  customer id, kept where one of the five texts matches its pattern.\<close>

definition matching_rows :: "store \<Rightarrow> string list \<Rightarrow> (invoice \<times> customer) list" where
  "matching_rows s ps =
     concat (map (\<lambda>i.
       map (\<lambda>c. (i, c))
         (filter (\<lambda>c. i_customer_id i = c_id c \<and>
                    (ilike (c_name c) (ps ! 0) \<or> ilike (c_email c) (ps ! 1) \<or>
                     ilike (text_of_int (i_amount i)) (ps ! 2) \<or>
                     ilike (i_date i) (ps ! 3) \<or> ilike (i_status i) (ps ! 4)))
            (tbl_customers s)))
       (tbl_invoices s))"

definition bad_statement :: "'a awaited" where
  "bad_statement = Rejected (Error ''statement does not match its parameters'')"

definition store_sql_count :: "store \<Rightarrow> sql_stmt \<Rightarrow> count_row QueryResult awaited" where
  "store_sql_count s stmt =
     (case stmt of SqlStmt t ps \<Rightarrow>
        if t = InvoiceCountSql \<and> length ps = 5
        then Resolved \<lparr>rows = [\<lparr>count = length (matching_rows s ps)\<rparr>]\<rparr>
        else bad_statement)"

definition store_sql_invoice :: "store \<Rightarrow> sql_stmt \<Rightarrow> int InvoiceForm QueryResult awaited" where
  "store_sql_invoice s stmt =
     (case stmt of SqlStmt t ps \<Rightarrow>
        if t = InvoiceByIdSql \<and> length ps = 1
        then Resolved
               \<lparr>rows = map (\<lambda>i. \<lparr>f_id = i_id i, f_customer_id = i_customer_id i,
                                    f_amount = i_amount i, f_status = i_status i\<rparr>)
                          (filter (\<lambda>i. i_id i = ps ! 0) (tbl_invoices s))\<rparr>
        else bad_statement)"

definition store_sql_customers :: "store \<Rightarrow> sql_stmt \<Rightarrow> CustomerField QueryResult awaited" where
  "store_sql_customers s stmt =
     (case stmt of SqlStmt t ps \<Rightarrow>
        if t = CustomersSql \<and> ps = []
        then Resolved
               \<lparr>rows = map (\<lambda>c. \<lparr>cf_id = c_id c, cf_name = c_name c\<rparr>)
                          (sort_key c_name (tbl_customers s))\<rparr>
        else bad_statement)"

definition customer_totals :: "invoice list \<Rightarrow> customer \<Rightarrow> int CustomersTableType" where
  "customer_totals invoices c =
     (let own = filter (\<lambda>i. i_customer_id i = c_id c) invoices in
      \<lparr>ct_id = c_id c, ct_name = c_name c, ct_email = c_email c,
       ct_image_url = c_image_url c,
       ct_total_invoices = length own,
       ct_total_pending =
         sum_list (map (\<lambda>i. if i_status i = ''pending'' then i_amount i else 0) own),
       ct_total_paid =
         sum_list (map (\<lambda>i. if i_status i = ''paid'' then i_amount i else 0) own)\<rparr>)"

definition store_sql_customers_table ::
  "store \<Rightarrow> sql_stmt \<Rightarrow> int CustomersTableType QueryResult awaited" where
  "store_sql_customers_table s stmt =
     (case stmt of SqlStmt t ps \<Rightarrow>
        if t = CustomersTableSql \<and> length ps = 2
        then Resolved
               \<lparr>rows = map (customer_totals (tbl_invoices s))
                          (filter (\<lambda>c. ilike (c_name c) (ps ! 0) \<or> ilike (c_email c) (ps ! 1))
                             (sort_key c_name (tbl_customers s)))\<rparr>
        else bad_statement)"

definition store_backend :: "store \<Rightarrow> backend" where
  "store_backend s =
     \<lparr>from_revenue = store_from_revenue s,
      from_invoices = store_from_invoices s,
      from_customers = store_from_customers s,
      from_invoices_embed = store_from_invoices_embed s,
      sql_count = store_sql_count s,
      sql_invoice = store_sql_invoice s,
      sql_customers = store_sql_customers s,
      sql_customers_table = store_sql_customers_table s\<rparr>"


section \<open>Concrete stores and backends\<close>

text \<open>Two invoices, one paid and one pending, and two customers. The second invoice
  names a customer that is not among the customers.\<close>

definition example_store :: store where
  "example_store =
     \<lparr>tbl_invoices =
        [\<lparr>i_id = ''inv-1'', i_customer_id = ''cus-1'', i_amount = 100000,
          i_status = ''paid'', i_date = ''2024-03-01''\<rparr>,
         \<lparr>i_id = ''inv-2'', i_customer_id = ''cus-7'', i_amount = 50000,
          i_status = ''pending'', i_date = ''2024-03-05''\<rparr>],
      tbl_customers =
        [\<lparr>c_id = ''cus-1'', c_name = ''Ada'', c_email = ''ada@example.com'',
          c_image_url = ''/customers/ada.png''\<rparr>,
         \<lparr>c_id = ''cus-2'', c_name = ''Bob'', c_email = ''bob@example.com'',
          c_image_url = ''/customers/bob.png''\<rparr>],
      tbl_revenue = [\<lparr>month = ''Jan'', revenue = 2000\<rparr>],
      or_filter = (\<lambda>f row. True)\<rparr>"

definition empty_store :: store where
  "empty_store =
     \<lparr>tbl_invoices = [], tbl_customers = [], tbl_revenue = [],
      or_filter = (\<lambda>f row. True)\<rparr>"

text \<open>Eight invoices of two customers, more than one page.\<close>

definition busy_store :: store where
  "busy_store =
     \<lparr>tbl_invoices =
        [\<lparr>i_id = ''inv-a'', i_customer_id = ''cus-1'', i_amount = 1500,
          i_status = ''paid'', i_date = ''2024-01-03''\<rparr>,
         \<lparr>i_id = ''inv-b'', i_customer_id = ''cus-2'', i_amount = 2500,
          i_status = ''pending'', i_date = ''2024-01-01''\<rparr>,
         \<lparr>i_id = ''inv-c'', i_customer_id = ''cus-1'', i_amount = 12345,
          i_status = ''paid'', i_date = ''2024-02-11''\<rparr>,
         \<lparr>i_id = ''inv-d'', i_customer_id = ''cus-2'', i_amount = 700,
          i_status = ''pending'', i_date = ''2024-01-20''\<rparr>,
         \<lparr>i_id = ''inv-e'', i_customer_id = ''cus-1'', i_amount = 99,
          i_status = ''paid'', i_date = ''2024-03-02''\<rparr>,
         \<lparr>i_id = ''inv-f'', i_customer_id = ''cus-2'', i_amount = 4000,
          i_status = ''pending'', i_date = ''2024-02-28''\<rparr>,
         \<lparr>i_id = ''inv-g'', i_customer_id = ''cus-1'', i_amount = 810,
          i_status = ''paid'', i_date = ''2024-01-15''\<rparr>,
         \<lparr>i_id = ''inv-h'', i_customer_id = ''cus-2'', i_amount = 3200,
          i_status = ''pending'', i_date = ''2024-03-09''\<rparr>],
      tbl_customers =
        [\<lparr>c_id = ''cus-1'', c_name = ''Ada'', c_email = ''ada@example.com'',
          c_image_url = ''/customers/ada.png''\<rparr>,
         \<lparr>c_id = ''cus-2'', c_name = ''Bob'', c_email = ''bob@example.com'',
          c_image_url = ''/customers/bob.png''\<rparr>],
      tbl_revenue = [],
      or_filter = (\<lambda>f row. True)\<rparr>"

text \<open>A backend that cannot be reached: every awaited call rejects.\<close>

definition unreachable :: backend where
  "unreachable =
     \<lparr>from_revenue = (\<lambda>q. Rejected (Error ''fetch failed'')),
      from_invoices = (\<lambda>q. Rejected (Error ''fetch failed'')),
      from_customers = (\<lambda>q. Rejected (Error ''fetch failed'')),
      from_invoices_embed = (\<lambda>q. Rejected (Error ''fetch failed'')),
      sql_count = (\<lambda>q. Rejected (Error ''connection refused'')),
      sql_invoice = (\<lambda>q. Rejected (Error ''connection refused'')),
      sql_customers = (\<lambda>q. Rejected (Error ''connection refused'')),
      sql_customers_table = (\<lambda>q. Rejected (Error ''connection refused''))\<rparr>"


text \<open>A backend whose table client reports no error and delivers no data set.\<close>

definition absent :: "'a sb_response awaited" where
  "absent = Resolved \<lparr>data = None, error = None\<rparr>"

definition silent :: backend where
  "silent =
     \<lparr>from_revenue = (\<lambda>q. absent),
      from_invoices = (\<lambda>q. absent),
      from_customers = (\<lambda>q. absent),
      from_invoices_embed = (\<lambda>q. absent),
      sql_count = (\<lambda>q. Resolved \<lparr>rows = []\<rparr>),
      sql_invoice = (\<lambda>q. Resolved \<lparr>rows = []\<rparr>),
      sql_customers = (\<lambda>q. Resolved \<lparr>rows = []\<rparr>),
      sql_customers_table = (\<lambda>q. Resolved \<lparr>rows = []\<rparr>)\<rparr>"

text \<open>Backends that answer from the example store except for one query: the customers
  query rejects, reports an error or delivers no data set, or the third query of
  \<^verbatim>\<open>fetchCardData\<close> rejects or reports an error.\<close>

definition customers_down :: backend where
  "customers_down =
     (store_backend example_store)
       \<lparr>from_customers := (\<lambda>q. Rejected (Error ''fetch failed''))\<rparr>"


definition customers_absent :: backend where
  "customers_absent = (store_backend example_store)\<lparr>from_customers := (\<lambda>q. absent)\<rparr>"






section \<open>The requests the layer issues\<close>

abbreviation revenue_query :: sb_query where
  "revenue_query \<equiv> sb_select ''month, revenue'' (sb_from ''revenue'')"

abbreviation latest_invoices_query :: sb_query where
  "latest_invoices_query \<equiv>
     sb_limit 5 (sb_order ''date'' False
       (sb_select latest_invoices_columns (sb_from ''invoices'')))"

abbreviation latest_customers_query :: "string list \<Rightarrow> sb_query" where
  "latest_customers_query customerIds \<equiv>
     sb_in ''id'' customerIds
       (sb_select ''id, name, email, image_url'' (sb_from ''customers''))"

abbreviation card_invoices_query :: sb_query where
  "card_invoices_query \<equiv> sb_select ''*'' (sb_from ''invoices'')"

abbreviation card_customers_query :: sb_query where
  "card_customers_query \<equiv> sb_select ''*'' (sb_from ''customers'')"

abbreviation card_status_query :: sb_query where
  "card_status_query \<equiv> sb_select ''status, amount'' (sb_from ''invoices'')"

abbreviation ordered_invoices_query :: sb_query where
  "ordered_invoices_query \<equiv>
     sb_order ''date'' False (sb_select filtered_invoices_columns (sb_from ''invoices''))"

abbreviation page_query :: "int \<Rightarrow> sb_query" where
  "page_query currentPage \<equiv>
     sb_range ((currentPage - 1) * ITEMS_PER_PAGE)
       ((currentPage - 1) * ITEMS_PER_PAGE + ITEMS_PER_PAGE - 1) ordered_invoices_query"

abbreviation filtered_page_query :: "string \<Rightarrow> int \<Rightarrow> sb_query" where
  "filtered_page_query query currentPage \<equiv>
     (if query = [] then page_query currentPage
      else sb_or (or_condition query) (page_query currentPage))"

abbreviation count_stmt :: "string \<Rightarrow> sql_stmt" where
  "count_stmt query \<equiv>
     SqlStmt InvoiceCountSql
       [''%'' @ query @ ''%'', ''%'' @ query @ ''%'', ''%'' @ query @ ''%'',
        ''%'' @ query @ ''%'', ''%'' @ query @ ''%'']"

abbreviation invoice_stmt :: "string \<Rightarrow> sql_stmt" where
  "invoice_stmt ident \<equiv> SqlStmt InvoiceByIdSql [ident]"



text \<open>The rows of a response, none when \<^verbatim>\<open>data\<close> is \<^verbatim>\<open>null\<close>.\<close>

definition rows_of :: "'a sb_response \<Rightarrow> 'a list" where
  "rows_of r = (case data r of None \<Rightarrow> [] | Some d \<Rightarrow> d)"

definition total_with_status :: "string \<Rightarrow> invoice list \<Rightarrow> int" where
  "total_with_status st invoices =
     sum_list (map i_amount (filter (\<lambda>invoice. i_status invoice = st) invoices))"


section \<open>Notions the properties are stated with\<close>

text \<open>The spec's words for the page of an unfiltered fetch: every invoice with its
  customer, newest date first, and of that the 6 rows at offset \<open>(page - 1) * 6\<close>.\<close>

definition unfiltered_fetch :: "store \<Rightarrow> InvoicesTable list" where
  "unfiltered_fetch s =
     by_date False it_date (map (embed_customer (tbl_customers s)) (tbl_invoices s))"

definition page_slice :: "int \<Rightarrow> 'a list \<Rightarrow> 'a list" where
  "page_slice page xs = take 6 (drop (nat ((page - 1) * 6)) xs)"





section \<open>Evaluating the effects\<close>

lemmas io_defs =
  io_return_def io_throw_def io_bind_def try_catch_def console_error_def console_log_def
  await_supabase_def await_sql_def

lemmas builder_defs =
  sb_from_def sb_select_def sb_order_def sb_limit_def sb_range_def sb_in_def sb_or_def


lemma foldl_amount:
  "foldl (\<lambda>sum curr. sum + i_amount curr) a xs = a + sum_list (map i_amount xs)"
  by (induction xs arbitrary: a) simp_all

lemma paid_and_pending_total:
  "total_with_status ''paid'' xs + total_with_status ''pending'' xs =
   sum_list (map i_amount
     (filter (\<lambda>invoice. i_status invoice = ''paid'' \<or> i_status invoice = ''pending'') xs))"
  by (induction xs) (auto simp: total_with_status_def)

lemma find_None_absent: "x \<notin> f ` set xs \<Longrightarrow> find (\<lambda>c. f c = x) xs = None"
  by (induction xs) auto

lemma filter_of_find_Some:
  "find P xs = Some x \<Longrightarrow> P x \<and> (\<exists>rest. filter P xs = x # rest)"
  by (induction xs) (auto split: if_splits)

lemma filter_of_find_None: "find P xs = None \<Longrightarrow> filter P xs = []"
  by (induction xs) (auto split: if_splits)

lemma ceiling_sixths: "- (- a div 6) = (a + 5) div (6::int)"
  by presburger

lemma pages_ceiling: "\<lceil>Number n / of_int ITEMS_PER_PAGE\<rceil> = int ((n + 5) div 6)"
proof -
  have "\<lceil>(of_int (int n) :: rat) / of_int 6\<rceil> = - (- int n div 6)"
    by (rule ceiling_divide_eq_div)
  also have "\<dots> = (int n + 5) div 6"
    by (rule ceiling_sixths)
  also have "\<dots> = int ((n + 5) div 6)"
    by (simp add: zdiv_int)
  finally show ?thesis
    by (simp add: Number_def ITEMS_PER_PAGE_def)
qed


section \<open>What the reference store answers to the layer's requests\<close>

lemma store_revenue_query:
  "from_revenue (store_backend s) revenue_query = delivered (tbl_revenue s)"
  by (simp add: store_backend_def store_from_revenue_def builder_defs well_ranged_def window_def)

lemma store_latest_invoices_query:
  "from_invoices (store_backend s) latest_invoices_query =
     delivered (take 5 (by_date False i_date (tbl_invoices s)))"
  by (simp add: store_backend_def store_from_invoices_def builder_defs well_ranged_def window_def)

lemma store_latest_customers_query:
  "from_customers (store_backend s) (latest_customers_query ids) =
     delivered (filter (\<lambda>c. c_id c \<in> set ids) (tbl_customers s))"
  by (simp add: store_backend_def store_from_customers_def builder_defs well_ranged_def window_def)

lemma store_card_queries:
  "from_invoices (store_backend s) card_invoices_query = delivered (tbl_invoices s)"
  "from_customers (store_backend s) card_customers_query = delivered (tbl_customers s)"
  "from_invoices (store_backend s) card_status_query = delivered (tbl_invoices s)"
  by (simp_all add: store_backend_def store_from_invoices_def store_from_customers_def
        builder_defs well_ranged_def window_def)

lemma store_ordered_invoices_query:
  "from_invoices_embed (store_backend s) ordered_invoices_query = delivered (unfiltered_fetch s)"
  by (simp add: store_backend_def store_from_invoices_embed_def builder_defs well_ranged_def
        window_def unfiltered_fetch_def)

lemma store_page_query:
  "1 \<le> page \<Longrightarrow>
   from_invoices_embed (store_backend s) (page_query page) =
     delivered (page_slice page (unfiltered_fetch s))"
  by (simp add: store_backend_def store_from_invoices_embed_def builder_defs well_ranged_def
        window_def unfiltered_fetch_def page_slice_def ITEMS_PER_PAGE_def)

lemma store_count_stmt:
  "sql_count (store_backend s) (count_stmt query) =
     Resolved \<lparr>rows = [\<lparr>count = length (matching_rows s
        [''%'' @ query @ ''%'', ''%'' @ query @ ''%'', ''%'' @ query @ ''%'',
         ''%'' @ query @ ''%'', ''%'' @ query @ ''%''])\<rparr>]\<rparr>"
  by (simp add: store_backend_def store_sql_count_def)

lemma store_invoice_stmt:
  "sql_invoice (store_backend s) (invoice_stmt ident) =
     Resolved \<lparr>rows = map (\<lambda>i. \<lparr>f_id = i_id i, f_customer_id = i_customer_id i,
                                  f_amount = i_amount i, f_status = i_status i\<rparr>)
                        (filter (\<lambda>i. i_id i = ident) (tbl_invoices s))\<rparr>"
  by (simp add: store_backend_def store_sql_invoice_def)


lemma unfiltered_fetch_descending: "sorted (map it_date (rev (unfiltered_fetch s)))"
  by (simp add: unfiltered_fetch_def by_date_def)


section \<open>What the concrete backends answer\<close>




lemma busy_unfiltered_ids:
  "map it_id (unfiltered_fetch busy_store) =
     [''inv-h'', ''inv-e'', ''inv-f'', ''inv-c'', ''inv-d'', ''inv-g'', ''inv-a'', ''inv-b'']"
  by (simp add: unfiltered_fetch_def by_date_def busy_store_def embed_customer_def)









lemma silent_answers:
  "from_revenue silent q = Resolved \<lparr>data = None, error = None\<rparr>"
  "from_invoices silent q = Resolved \<lparr>data = None, error = None\<rparr>"
  "from_customers silent q = Resolved \<lparr>data = None, error = None\<rparr>"
  "from_invoices_embed silent q = Resolved \<lparr>data = None, error = None\<rparr>"
  "sql_count silent st = Resolved \<lparr>rows = []\<rparr>"
  "sql_invoice silent st = Resolved \<lparr>rows = []\<rparr>"
  by (simp_all add: silent_def absent_def)



section \<open>The functions case by case\<close>

lemma fetchCardData_resolved:
  assumes "from_invoices b card_invoices_query = Resolved r1"
      and "from_customers b card_customers_query = Resolved r2"
      and "from_invoices b card_status_query = Resolved r3"
      and "error r1 = None" and "error r2 = None" and "error r3 = None"
  shows "fetchCardData b =
           ([Issued (Supabase card_invoices_query), Settled (Supabase card_invoices_query),
             Issued (Supabase card_customers_query), Settled (Supabase card_customers_query),
             Issued (Supabase card_status_query), Settled (Supabase card_status_query)],
            Inr \<lparr>numberOfCustomers = length (rows_of r2),
                 numberOfInvoices = length (rows_of r1),
                 totalPaidInvoices = formatCurrency (total_with_status ''paid'' (rows_of r1)),
                 totalPendingInvoices =
                   formatCurrency (total_with_status ''pending'' (rows_of r1))\<rparr>)"
  using assms
  by (simp add: fetchCardData_def io_defs rows_of_def total_with_status_def foldl_amount
       split: option.splits)

lemma fetchCardData_store:
  "snd (fetchCardData (store_backend s)) =
     Inr \<lparr>numberOfCustomers = length (tbl_customers s),
          numberOfInvoices = length (tbl_invoices s),
          totalPaidInvoices = formatCurrency (total_with_status ''paid'' (tbl_invoices s)),
          totalPendingInvoices =
            formatCurrency (total_with_status ''pending'' (tbl_invoices s))\<rparr>"
  by (simp add: fetchCardData_resolved[OF store_card_queries[unfolded delivered_def]] rows_of_def)

lemma or_condition_truthy: "or_condition query \<noteq> []"
  by (simp add: or_condition_def)

lemma fetchFilteredInvoices_eval:
  "fetchFilteredInvoices b query page =
     (case from_invoices_embed b (filtered_page_query query page) of
        Rejected x \<Rightarrow>
          ([Issued (Supabase (filtered_page_query query page)),
            Settled (Supabase (filtered_page_query query page)),
            ConsoleError ''Database Error:'' (Caught x)],
           Inl (Error ''Failed to fetch invoices.''))
      | Resolved r \<Rightarrow>
          (case error r of
             Some e \<Rightarrow>
               ([Issued (Supabase (filtered_page_query query page)),
                 Settled (Supabase (filtered_page_query query page)),
                 ConsoleError ''Supabase Error:'' (Reported e),
                 ConsoleError ''Database Error:'' (Caught (Error ''Failed to fetch invoices.''))],
                Inl (Error ''Failed to fetch invoices.''))
           | None \<Rightarrow>
               ([Issued (Supabase (filtered_page_query query page)),
                 Settled (Supabase (filtered_page_query query page)),
                 ConsoleLog ''Fetched Invoices:'' (data r)],
                Inr (data r))))"
  by (simp add: fetchFilteredInvoices_def io_defs Let_def or_condition_truthy
      split: awaited.splits option.splits)

lemma fetchFilteredInvoices_unfiltered:
  "fetchFilteredInvoices b [] page =
     (case from_invoices_embed b (page_query page) of
        Rejected x \<Rightarrow>
          ([Issued (Supabase (page_query page)), Settled (Supabase (page_query page)),
            ConsoleError ''Database Error:'' (Caught x)],
           Inl (Error ''Failed to fetch invoices.''))
      | Resolved r \<Rightarrow>
          (case error r of
             Some e \<Rightarrow>
               ([Issued (Supabase (page_query page)), Settled (Supabase (page_query page)),
                 ConsoleError ''Supabase Error:'' (Reported e),
                 ConsoleError ''Database Error:'' (Caught (Error ''Failed to fetch invoices.''))],
                Inl (Error ''Failed to fetch invoices.''))
           | None \<Rightarrow>
               ([Issued (Supabase (page_query page)), Settled (Supabase (page_query page)),
                 ConsoleLog ''Fetched Invoices:'' (data r)],
                Inr (data r))))"
  using fetchFilteredInvoices_eval[of b "[]" page] by simp



lemma io_bind_prefix: "\<exists>rest. fst (io_bind m f) = fst m @ rest"
  by (simp add: io_bind_def split: sum.splits)

lemma try_catch_prefix: "\<exists>rest. fst (try_catch m h) = fst m @ rest"
  by (simp add: try_catch_def split: sum.splits)

lemma fetchCardData_first_settles:
  "take 2 (fst (fetchCardData b)) =
     [Issued (Supabase card_invoices_query), Settled (Supabase card_invoices_query)]"
proof -
  let ?first = "await_supabase (from_invoices b) card_invoices_query"
  obtain f h where "fetchCardData b = try_catch (io_bind ?first f) h"
    by (simp add: fetchCardData_def)
  moreover obtain r1 where "fst (io_bind ?first f) = fst ?first @ r1"
    using io_bind_prefix by blast
  moreover obtain r2 where "fst (try_catch (io_bind ?first f) h) = fst (io_bind ?first f) @ r2"
    using try_catch_prefix by blast
  ultimately show ?thesis
    by (simp add: await_supabase_def)
qed

lemma fetchCardData_rejections:
  "from_invoices b card_invoices_query = Rejected x \<Longrightarrow>
     fetchCardData b =
       ([Issued (Supabase card_invoices_query), Settled (Supabase card_invoices_query),
         ConsoleError ''Database Error:'' (Caught x)],
        Inl (Error ''Failed to fetch card data.''))"
  "from_invoices b card_invoices_query = Resolved r1 \<Longrightarrow>
   from_customers b card_customers_query = Rejected x \<Longrightarrow>
     fetchCardData b =
       ([Issued (Supabase card_invoices_query), Settled (Supabase card_invoices_query),
         Issued (Supabase card_customers_query), Settled (Supabase card_customers_query),
         ConsoleError ''Database Error:'' (Caught x)],
        Inl (Error ''Failed to fetch card data.''))"
  "from_invoices b card_invoices_query = Resolved r1 \<Longrightarrow>
   from_customers b card_customers_query = Resolved r2 \<Longrightarrow>
   from_invoices b card_status_query = Rejected x \<Longrightarrow>
     fetchCardData b =
       ([Issued (Supabase card_invoices_query), Settled (Supabase card_invoices_query),
         Issued (Supabase card_customers_query), Settled (Supabase card_customers_query),
         Issued (Supabase card_status_query), Settled (Supabase card_status_query),
         ConsoleError ''Database Error:'' (Caught x)],
        Inl (Error ''Failed to fetch card data.''))"
  by (simp_all add: fetchCardData_def io_defs)

lemma fetchCardData_all_settled:
  "from_invoices b card_invoices_query = Resolved r1 \<Longrightarrow>
   from_customers b card_customers_query = Resolved r2 \<Longrightarrow>
   from_invoices b card_status_query = Resolved r3 \<Longrightarrow>
     take 6 (fst (fetchCardData b)) =
       [Issued (Supabase card_invoices_query), Settled (Supabase card_invoices_query),
        Issued (Supabase card_customers_query), Settled (Supabase card_customers_query),
        Issued (Supabase card_status_query), Settled (Supabase card_status_query)]"
  by (simp add: fetchCardData_def io_defs Let_def split: option.splits)


















section \<open>Claim C1: monetary amounts in the results\<close>





section \<open>Claim C2: the failure that ends a call is caught, logged and replaced\<close>





section \<open>Claim C3: the revenue query on no rows\<close>

text \<open>
  C3 says that \<^verbatim>\<open>fetchRevenue\<close> fails with the generic error whenever the backing query
  returns no rows. The function tests \<^verbatim>\<open>!data\<close>, and an empty array is truthy: when the
  query resolves to no rows and no error, the function returns the empty sequence, logs
  nothing and throws nothing. The message of the \<^verbatim>\<open>throw\<close> behind that test says that
  no data was found in the table, and \<^verbatim>\<open>fetchLatestInvoices\<close> tests
  \<^verbatim>\<open>!data || data.length === 0\<close> for the same condition.
\<close>

theorem fetchRevenue_no_rows:
  "from_revenue b revenue_query = Resolved \<lparr>data = Some [], error = None\<rparr> \<Longrightarrow>
   fetchRevenue b =
     ([Issued (Supabase revenue_query), Settled (Supabase revenue_query)], Inr [])"
  by (simp add: fetchRevenue_def io_defs)

theorem fetchRevenue_no_rows_witness:
  "fetchRevenue (store_backend empty_store) =
     ([Issued (Supabase revenue_query), Settled (Supabase revenue_query)], Inr [])"
  using fetchRevenue_no_rows[of "store_backend empty_store"]
  by (simp add: store_revenue_query delivered_def empty_store_def)


section \<open>Claim C4: the card summary\<close>

text \<open>
  C4. When the three queries of \<^verbatim>\<open>fetchCardData\<close> resolve without an error, the result
  holds the number of invoice rows of the first query whatever their status, the number
  of customer rows, and the formatter's text of the sum of the amounts of the paid and
  of the pending invoices; an absent data set counts as no rows, so its sums are 0.
  Against the reference store these are the counts and sums over the tables. With the
  invoices \<open>[{100000, paid}, {50000, pending}]\<close> and two customers the result is
  \<open>{2, 2, $1,000.00, $500.00}\<close>. The paid and the pending sum together do not
  exceed the sum over the invoices whose status is paid or pending.
\<close>

theorem fetchCardData_summary:
  "(from_invoices b card_invoices_query = Resolved r1 \<and>
    from_customers b card_customers_query = Resolved r2 \<and>
    from_invoices b card_status_query = Resolved r3 \<and>
    error r1 = None \<and> error r2 = None \<and> error r3 = None \<longrightarrow>
      snd (fetchCardData b) =
        Inr \<lparr>numberOfCustomers = length (rows_of r2),
             numberOfInvoices = length (rows_of r1),
             totalPaidInvoices = formatCurrency (total_with_status ''paid'' (rows_of r1)),
             totalPendingInvoices =
               formatCurrency (total_with_status ''pending'' (rows_of r1))\<rparr>)
   \<and> snd (fetchCardData (store_backend s)) =
        Inr \<lparr>numberOfCustomers = length (tbl_customers s),
             numberOfInvoices = length (tbl_invoices s),
             totalPaidInvoices = formatCurrency (total_with_status ''paid'' (tbl_invoices s)),
             totalPendingInvoices =
               formatCurrency (total_with_status ''pending'' (tbl_invoices s))\<rparr>
   \<and> (tbl_invoices s = [i1, i2] \<and> i_amount i1 = 100000 \<and> i_status i1 = ''paid'' \<and>
       i_amount i2 = 50000 \<and> i_status i2 = ''pending'' \<and> tbl_customers s = [c1, c2] \<longrightarrow>
      snd (fetchCardData (store_backend s)) =
        Inr \<lparr>numberOfCustomers = 2, numberOfInvoices = 2,
             totalPaidInvoices = ''$1,000.00'', totalPendingInvoices = ''$500.00''\<rparr>)
   \<and> total_with_status ''paid'' xs + total_with_status ''pending'' xs \<le>
       sum_list (map i_amount
         (filter (\<lambda>invoice. i_status invoice = ''paid'' \<or> i_status invoice = ''pending'') xs))
   \<and> (data r1 = None \<longrightarrow> total_with_status st (rows_of r1) = 0)"
proof (intro conjI impI)
  assume "from_invoices b card_invoices_query = Resolved r1 \<and>
    from_customers b card_customers_query = Resolved r2 \<and>
    from_invoices b card_status_query = Resolved r3 \<and>
    error r1 = None \<and> error r2 = None \<and> error r3 = None"
  then show "snd (fetchCardData b) =
        Inr \<lparr>numberOfCustomers = length (rows_of r2),
             numberOfInvoices = length (rows_of r1),
             totalPaidInvoices = formatCurrency (total_with_status ''paid'' (rows_of r1)),
             totalPendingInvoices =
               formatCurrency (total_with_status ''pending'' (rows_of r1))\<rparr>"
    by (simp add: fetchCardData_resolved)
next
  show "snd (fetchCardData (store_backend s)) =
        Inr \<lparr>numberOfCustomers = length (tbl_customers s),
             numberOfInvoices = length (tbl_invoices s),
             totalPaidInvoices = formatCurrency (total_with_status ''paid'' (tbl_invoices s)),
             totalPendingInvoices =
               formatCurrency (total_with_status ''pending'' (tbl_invoices s))\<rparr>"
    by (rule fetchCardData_store)
next
  assume "tbl_invoices s = [i1, i2] \<and> i_amount i1 = 100000 \<and> i_status i1 = ''paid'' \<and>
       i_amount i2 = 50000 \<and> i_status i2 = ''pending'' \<and> tbl_customers s = [c1, c2]"
  then show "snd (fetchCardData (store_backend s)) =
        Inr \<lparr>numberOfCustomers = 2, numberOfInvoices = 2,
             totalPaidInvoices = ''$1,000.00'', totalPendingInvoices = ''$500.00''\<rparr>"
    by (simp add: fetchCardData_store total_with_status_def formatCurrency_def digit_char_def)
next
  show "total_with_status ''paid'' xs + total_with_status ''pending'' xs \<le>
       sum_list (map i_amount
         (filter (\<lambda>invoice. i_status invoice = ''paid'' \<or> i_status invoice = ''pending'') xs))"
    by (simp add: paid_and_pending_total)
next
  assume "data r1 = None"
  then show "total_with_status st (rows_of r1) = 0"
    by (simp add: total_with_status_def rows_of_def)
qed

theorem fetchCardData_summary_witness:
  "snd (fetchCardData (store_backend example_store)) =
     Inr \<lparr>numberOfCustomers = 2, numberOfInvoices = 2,
          totalPaidInvoices = ''$1,000.00'', totalPendingInvoices = ''$500.00''\<rparr>
   \<and> snd (fetchCardData silent) =
     Inr \<lparr>numberOfCustomers = 0, numberOfInvoices = 0,
          totalPaidInvoices = ''$0.00'', totalPendingInvoices = ''$0.00''\<rparr>"
proof
  show "snd (fetchCardData (store_backend example_store)) =
     Inr \<lparr>numberOfCustomers = 2, numberOfInvoices = 2,
          totalPaidInvoices = ''$1,000.00'', totalPendingInvoices = ''$500.00''\<rparr>"
    using fetchCardData_summary[where s = example_store
        and ?i1.0 = "tbl_invoices example_store ! 0" and ?i2.0 = "tbl_invoices example_store ! 1"
        and ?c1.0 = "tbl_customers example_store ! 0" and ?c2.0 = "tbl_customers example_store ! 1"]
    by (simp add: example_store_def total_with_status_def formatCurrency_def digit_char_def)
  show "snd (fetchCardData silent) =
     Inr \<lparr>numberOfCustomers = 0, numberOfInvoices = 0,
          totalPaidInvoices = ''$0.00'', totalPendingInvoices = ''$0.00''\<rparr>"
    using fetchCardData_summary[where b = silent
        and ?r1.0 = "\<lparr>data = None, error = None\<rparr>" and ?r2.0 = "\<lparr>data = None, error = None\<rparr>"
        and ?r3.0 = "\<lparr>data = None, error = None\<rparr>" and st = "''paid''"]
    by (simp add: silent_def absent_def rows_of_def total_with_status_def formatCurrency_def digit_char_def)
qed


section \<open>Claim C5: an invoice by its id\<close>

text \<open>
  C5. \<^verbatim>\<open>fetchInvoiceById\<close> returns the first row the statement delivers, with the amount
  divided by 100 as a number and the other three fields as they are, and \<^verbatim>\<open>undefined\<close>
  when the statement delivers no row. Against the reference store: for an id present in
  the invoices the record of the stored invoice with \<open>amount = cents / 100\<close>, for an id
  not present \<^verbatim>\<open>undefined\<close>, without an exception and without a console line. The
  quotient is the exact rational; JavaScript holds the nearest double.
\<close>

theorem fetchInvoiceById_amount:
  "(sql_invoice b (invoice_stmt ident) = Resolved res \<longrightarrow>
      snd (fetchInvoiceById b ident) =
        Inr (case rows res of
               [] \<Rightarrow> None
             | row # rest \<Rightarrow>
                 Some \<lparr>f_id = f_id row, f_customer_id = f_customer_id row,
                       f_amount = of_int (f_amount row) / 100, f_status = f_status row\<rparr>))
   \<and> (find (\<lambda>i. i_id i = ident) (tbl_invoices s) = Some stored \<longrightarrow>
        fetchInvoiceById (store_backend s) ident =
          ([Issued (Sql (invoice_stmt ident)), Settled (Sql (invoice_stmt ident))],
           Inr (Some \<lparr>f_id = ident, f_customer_id = i_customer_id stored,
                      f_amount = of_int (i_amount stored) / 100, f_status = i_status stored\<rparr>)))
   \<and> (find (\<lambda>i. i_id i = ident) (tbl_invoices s) = None \<longrightarrow>
        fetchInvoiceById (store_backend s) ident =
          ([Issued (Sql (invoice_stmt ident)), Settled (Sql (invoice_stmt ident))], Inr None))"
proof (intro conjI impI)
  assume "sql_invoice b (invoice_stmt ident) = Resolved res"
  then show "snd (fetchInvoiceById b ident) =
        Inr (case rows res of
               [] \<Rightarrow> None
             | row # rest \<Rightarrow>
                 Some \<lparr>f_id = f_id row, f_customer_id = f_customer_id row,
                       f_amount = of_int (f_amount row) / 100, f_status = f_status row\<rparr>)"
    by (simp add: fetchInvoiceById_def io_defs Let_def split: list.splits)
next
  assume "find (\<lambda>i. i_id i = ident) (tbl_invoices s) = Some stored"
  from filter_of_find_Some[OF this]
  obtain rest where "i_id stored = ident" "filter (\<lambda>i. i_id i = ident) (tbl_invoices s) = stored # rest"
    by blast
  then show "fetchInvoiceById (store_backend s) ident =
          ([Issued (Sql (invoice_stmt ident)), Settled (Sql (invoice_stmt ident))],
           Inr (Some \<lparr>f_id = ident, f_customer_id = i_customer_id stored,
                      f_amount = of_int (i_amount stored) / 100, f_status = i_status stored\<rparr>))"
    by (simp add: fetchInvoiceById_def io_defs Let_def store_invoice_stmt)
next
  assume "find (\<lambda>i. i_id i = ident) (tbl_invoices s) = None"
  from filter_of_find_None[OF this]
  show "fetchInvoiceById (store_backend s) ident =
          ([Issued (Sql (invoice_stmt ident)), Settled (Sql (invoice_stmt ident))], Inr None)"
    by (simp add: fetchInvoiceById_def io_defs Let_def store_invoice_stmt)
qed

theorem fetchInvoiceById_amount_witness:
  "snd (fetchInvoiceById (store_backend example_store) ''inv-2'') =
     Inr (Some \<lparr>f_id = ''inv-2'', f_customer_id = ''cus-7'', f_amount = 500,
                f_status = ''pending''\<rparr>)
   \<and> snd (fetchInvoiceById (store_backend example_store) ''inv-3'') = Inr None
   \<and> snd (fetchInvoiceById silent ''inv-2'') = Inr None"
proof (intro conjI)
  show "snd (fetchInvoiceById (store_backend example_store) ''inv-2'') =
     Inr (Some \<lparr>f_id = ''inv-2'', f_customer_id = ''cus-7'', f_amount = 500,
                f_status = ''pending''\<rparr>)"
    using fetchInvoiceById_amount[where s = example_store and ident = "''inv-2''"
        and stored = "tbl_invoices example_store ! 1"]
    by (simp add: example_store_def)
  show "snd (fetchInvoiceById (store_backend example_store) ''inv-3'') = Inr None"
    using fetchInvoiceById_amount[where s = example_store and ident = "''inv-3''"]
    by (simp add: example_store_def)
  show "snd (fetchInvoiceById silent ''inv-2'') = Inr None"
    using fetchInvoiceById_amount[where b = silent and ident = "''inv-2''"
        and res = "\<lparr>rows = []\<rparr>"]
    by (simp add: silent_def)
qed


section \<open>Claim C6: the number of pages\<close>

text \<open>
  C6. For every query string, when the count statement delivers a row, the result of
  \<^verbatim>\<open>fetchInvoicesPages\<close> is the ceiling of the count over 6, which is \<open>(count + 5) div 6\<close>,
  and 0 for the count 0. Against the reference store the count is the number of matching
  rows of the join of invoices and customers.
\<close>

theorem fetchInvoicesPages_ceiling:
  "(sql_count b (count_stmt query) = Resolved res \<and> rows res = row # rest \<longrightarrow>
      snd (fetchInvoicesPages b query) = Inr \<lceil>rat_of_nat (count row) / 6\<rceil> \<and>
      snd (fetchInvoicesPages b query) = Inr (int ((count row + 5) div 6)) \<and>
      (count row = 0 \<longrightarrow> snd (fetchInvoicesPages b query) = Inr 0))
   \<and> snd (fetchInvoicesPages (store_backend s) query) =
       Inr \<lceil>rat_of_nat (length (matching_rows s
              [''%'' @ query @ ''%'', ''%'' @ query @ ''%'', ''%'' @ query @ ''%'',
               ''%'' @ query @ ''%'', ''%'' @ query @ ''%''])) / 6\<rceil>
   \<and> (matching_rows s
         [''%'' @ query @ ''%'', ''%'' @ query @ ''%'', ''%'' @ query @ ''%'',
          ''%'' @ query @ ''%'', ''%'' @ query @ ''%''] = [] \<longrightarrow>
       snd (fetchInvoicesPages (store_backend s) query) = Inr 0)"
proof -
  have eval: "snd (fetchInvoicesPages b' query) = Inr (int ((count row' + 5) div 6))"
    if "sql_count b' (count_stmt query) = Resolved res'" and "rows res' = row' # rest'"
    for b' res' row' rest'
    using that by (simp add: fetchInvoicesPages_def io_defs Let_def pages_ceiling)
  have ceil: "\<lceil>rat_of_nat n / 6\<rceil> = int ((n + 5) div 6)" for n
    using pages_ceiling[of n] by (simp add: Number_def ITEMS_PER_PAGE_def)
  have general: "snd (fetchInvoicesPages b query) = Inr \<lceil>rat_of_nat (count row) / 6\<rceil> \<and>
      snd (fetchInvoicesPages b query) = Inr (int ((count row + 5) div 6)) \<and>
      (count row = 0 \<longrightarrow> snd (fetchInvoicesPages b query) = Inr 0)"
    if "sql_count b (count_stmt query) = Resolved res \<and> rows res = row # rest"
    using eval[of b res row rest] that by (simp add: ceil)
  have stored: "snd (fetchInvoicesPages (store_backend s) query) =
       Inr (int ((length (matching_rows s
              [''%'' @ query @ ''%'', ''%'' @ query @ ''%'', ''%'' @ query @ ''%'',
               ''%'' @ query @ ''%'', ''%'' @ query @ ''%'']) + 5) div 6))"
    using eval[OF store_count_stmt] by simp
  show ?thesis
    using general stored by (simp add: ceil)
qed

theorem fetchInvoicesPages_ceiling_witness:
  "snd (fetchInvoicesPages (store_backend example_store) '''') = Inr 1
   \<and> snd (fetchInvoicesPages (store_backend example_store) ''zz'') = Inr 0
   \<and> snd (fetchInvoicesPages (store_backend empty_store) '''') = Inr 0"
proof (intro conjI)
  have m: "matching_rows example_store [''%%'', ''%%'', ''%%'', ''%%'', ''%%''] =
             [(tbl_invoices example_store ! 0, tbl_customers example_store ! 0)]"
    by (simp add: matching_rows_def example_store_def ilike_def to_lower_def)
  show "snd (fetchInvoicesPages (store_backend example_store) '''') = Inr 1"
    using fetchInvoicesPages_ceiling[where s = example_store and query = "''''"]
      ceiling_unique[of 1 "1 / 6 :: rat"]
    by (simp add: m)
  have z: "matching_rows example_store [''%zz%'', ''%zz%'', ''%zz%'', ''%zz%'', ''%zz%''] = []"
    by (simp add: matching_rows_def example_store_def ilike_def to_lower_def text_of_int_def
        digit_char_def)
  show "snd (fetchInvoicesPages (store_backend example_store) ''zz'') = Inr 0"
    using fetchInvoicesPages_ceiling[where s = example_store and query = "''zz''"]
    by (simp add: z)
  show "snd (fetchInvoicesPages (store_backend empty_store) '''') = Inr 0"
    using fetchInvoicesPages_ceiling[where s = empty_store and query = "''''"]
    by (simp add: matching_rows_def empty_store_def)
qed


section \<open>Claim C7: the empty query string\<close>

text \<open>
  C7. With the empty query string \<^verbatim>\<open>fetchFilteredInvoices\<close> issues, for every page, the
  request ordered by date descending with the range \<open>(page - 1) * 6\<close> to
  \<open>(page - 1) * 6 + 5\<close> and no \<^verbatim>\<open>or\<close> filter, and returns the \<^verbatim>\<open>data\<close> it resolves to.
  Against the reference store, whose answer to the ordered request without a range is
  the unfiltered fetch (dates descending), the result for a page number from 1 on is the
  slice of 6 rows of the unfiltered fetch at offset \<open>(page - 1) * 6\<close>.
\<close>

theorem fetchFilteredInvoices_empty_query:
  "take 2 (fst (fetchFilteredInvoices b [] page)) =
     [Issued (Supabase (page_query page)), Settled (Supabase (page_query page))]
   \<and> q_or (page_query page) = None
   \<and> q_order (page_query page) = Some (''date'', False)
   \<and> q_range (page_query page) = Some ((page - 1) * 6, (page - 1) * 6 + 5)
   \<and> (from_invoices_embed b (page_query page) = Resolved r \<and> error r = None \<longrightarrow>
        snd (fetchFilteredInvoices b [] page) = Inr (data r))
   \<and> from_invoices_embed (store_backend s) ordered_invoices_query =
        delivered (unfiltered_fetch s)
   \<and> sorted (map it_date (rev (unfiltered_fetch s)))
   \<and> (1 \<le> page \<longrightarrow>
        snd (fetchFilteredInvoices (store_backend s) [] page) =
          Inr (Some (page_slice page (unfiltered_fetch s))))"
proof (intro conjI impI)
  show "take 2 (fst (fetchFilteredInvoices b [] page)) =
     [Issued (Supabase (page_query page)), Settled (Supabase (page_query page))]"
    by (simp add: fetchFilteredInvoices_unfiltered split: awaited.splits option.splits)
  show "q_or (page_query page) = None"
    by (simp add: builder_defs)
  show "q_order (page_query page) = Some (''date'', False)"
    by (simp add: builder_defs)
  show "q_range (page_query page) = Some ((page - 1) * 6, (page - 1) * 6 + 5)"
    by (simp add: builder_defs ITEMS_PER_PAGE_def)
  show "from_invoices_embed (store_backend s) ordered_invoices_query =
        delivered (unfiltered_fetch s)"
    by (rule store_ordered_invoices_query)
  show "sorted (map it_date (rev (unfiltered_fetch s)))"
    by (rule unfiltered_fetch_descending)
next
  assume "from_invoices_embed b (page_query page) = Resolved r \<and> error r = None"
  then show "snd (fetchFilteredInvoices b [] page) = Inr (data r)"
    by (simp add: fetchFilteredInvoices_unfiltered)
next
  assume "1 \<le> page"
  then show "snd (fetchFilteredInvoices (store_backend s) [] page) =
          Inr (Some (page_slice page (unfiltered_fetch s)))"
    by (simp add: fetchFilteredInvoices_unfiltered store_page_query delivered_def)
qed

theorem fetchFilteredInvoices_empty_query_witness:
  "snd (fetchFilteredInvoices (store_backend busy_store) [] 2) =
     Inr (Some (page_slice 2 (unfiltered_fetch busy_store)))
   \<and> map it_id (page_slice 2 (unfiltered_fetch busy_store)) = [''inv-a'', ''inv-b'']
   \<and> snd (fetchFilteredInvoices (store_backend busy_store) [] 1) =
     Inr (Some (page_slice 1 (unfiltered_fetch busy_store)))
   \<and> map it_id (page_slice 1 (unfiltered_fetch busy_store)) =
       [''inv-h'', ''inv-e'', ''inv-f'', ''inv-c'', ''inv-d'', ''inv-g'']
   \<and> snd (fetchFilteredInvoices silent [] 1) = Inr None"
proof (intro conjI)
  show "snd (fetchFilteredInvoices (store_backend busy_store) [] 2) =
     Inr (Some (page_slice 2 (unfiltered_fetch busy_store)))"
    using fetchFilteredInvoices_empty_query[where s = busy_store and page = 2] by simp
  show "snd (fetchFilteredInvoices (store_backend busy_store) [] 1) =
     Inr (Some (page_slice 1 (unfiltered_fetch busy_store)))"
    using fetchFilteredInvoices_empty_query[where s = busy_store and page = 1] by simp
  show "map it_id (page_slice 2 (unfiltered_fetch busy_store)) = [''inv-a'', ''inv-b'']"
    using busy_unfiltered_ids by (simp add: page_slice_def take_map[symmetric] drop_map[symmetric])
  show "map it_id (page_slice 1 (unfiltered_fetch busy_store)) =
       [''inv-h'', ''inv-e'', ''inv-f'', ''inv-c'', ''inv-d'', ''inv-g'']"
    using busy_unfiltered_ids by (simp add: page_slice_def take_map[symmetric])
  show "snd (fetchFilteredInvoices silent [] 1) = Inr None"
    using fetchFilteredInvoices_empty_query[where b = silent and page = 1
        and r = "\<lparr>data = None, error = None\<rparr>"]
    by (simp add: silent_def absent_def)
qed


section \<open>Claim C8: the latest invoices, edge cases\<close>

text \<open>
  C8. When the invoices query resolves to no rows and no error, \<^verbatim>\<open>fetchLatestInvoices\<close>
  returns the empty sequence, issues no second request and logs nothing; so it does on a
  store without invoices. When both queries resolve without an error, every invoice
  whose customer id is not among the fetched customers yields a record with its id and
  formatted amount and with \<^verbatim>\<open>name\<close>, \<^verbatim>\<open>email\<close> and \<^verbatim>\<open>image_url\<close> undefined, and the
  function returns. (When the customers query delivers no data set at all, \<^verbatim>\<open>null\<close>
  without an error, there is nothing to search and the \<^verbatim>\<open>find\<close> throws: the
  \<^verbatim>\<open>TypeError\<close> case of C2.)
\<close>

theorem fetchLatestInvoices_edge_cases:
  "(from_invoices b latest_invoices_query = Resolved r \<and> error r = None \<and> rows_of r = [] \<longrightarrow>
      fetchLatestInvoices b =
        ([Issued (Supabase latest_invoices_query), Settled (Supabase latest_invoices_query)],
         Inr []))
   \<and> (tbl_invoices s = [] \<longrightarrow> snd (fetchLatestInvoices (store_backend s)) = Inr [])
   \<and> (from_invoices b latest_invoices_query = Resolved r \<and> error r = None \<and>
      data r = Some d \<and> d \<noteq> [] \<and>
      from_customers b (latest_customers_query (map i_customer_id d)) = Resolved r2 \<and>
      error r2 = None \<and> data r2 = Some cs \<longrightarrow>
        (\<exists>xs. snd (fetchLatestInvoices b) = Inr xs \<and> length xs = length d \<and>
           (\<forall>k<length d. i_customer_id (d ! k) \<notin> c_id ` set cs \<longrightarrow>
              li_id (xs ! k) = i_id (d ! k) \<and>
              li_amount (xs ! k) = formatCurrency (i_amount (d ! k)) \<and>
              li_name (xs ! k) = None \<and> li_email (xs ! k) = None \<and>
              li_image_url (xs ! k) = None)))"
proof (intro conjI impI)
  assume "from_invoices b latest_invoices_query = Resolved r \<and> error r = None \<and> rows_of r = []"
  then show "fetchLatestInvoices b =
        ([Issued (Supabase latest_invoices_query), Settled (Supabase latest_invoices_query)],
         Inr [])"
    by (auto simp add: fetchLatestInvoices_def io_defs rows_of_def split: option.splits)
next
  assume "tbl_invoices s = []"
  then show "snd (fetchLatestInvoices (store_backend s)) = Inr []"
    by (simp add: fetchLatestInvoices_def io_defs store_latest_invoices_query delivered_def
        by_date_def)
next
  assume a: "from_invoices b latest_invoices_query = Resolved r \<and> error r = None \<and>
      data r = Some d \<and> d \<noteq> [] \<and>
      from_customers b (latest_customers_query (map i_customer_id d)) = Resolved r2 \<and>
      error r2 = None \<and> data r2 = Some cs"
  then show "\<exists>xs. snd (fetchLatestInvoices b) = Inr xs \<and> length xs = length d \<and>
           (\<forall>k<length d. i_customer_id (d ! k) \<notin> c_id ` set cs \<longrightarrow>
              li_id (xs ! k) = i_id (d ! k) \<and>
              li_amount (xs ! k) = formatCurrency (i_amount (d ! k)) \<and>
              li_name (xs ! k) = None \<and> li_email (xs ! k) = None \<and>
              li_image_url (xs ! k) = None)"
    by (simp add: fetchLatestInvoices_def io_defs Let_def find_None_absent)
qed

theorem fetchLatestInvoices_edge_cases_witness:
  "fetchLatestInvoices (store_backend empty_store) =
     ([Issued (Supabase latest_invoices_query), Settled (Supabase latest_invoices_query)],
      Inr [])
   \<and> snd (fetchLatestInvoices (store_backend example_store)) =
     Inr [\<lparr>li_id = ''inv-2'', li_amount = ''$500.00'', li_name = None, li_email = None,
           li_image_url = None\<rparr>,
          \<lparr>li_id = ''inv-1'', li_amount = ''$1,000.00'', li_name = Some ''Ada'',
           li_email = Some ''ada@example.com'',
           li_image_url = Some ''/customers/ada.png''\<rparr>]"
proof
  show "fetchLatestInvoices (store_backend empty_store) =
     ([Issued (Supabase latest_invoices_query), Settled (Supabase latest_invoices_query)],
      Inr [])"
    using fetchLatestInvoices_edge_cases[where b = "store_backend empty_store"
        and r = "\<lparr>data = Some [], error = None\<rparr>"]
    by (simp add: store_latest_invoices_query delivered_def empty_store_def by_date_def
        rows_of_def)
  show "snd (fetchLatestInvoices (store_backend example_store)) =
     Inr [\<lparr>li_id = ''inv-2'', li_amount = ''$500.00'', li_name = None, li_email = None,
           li_image_url = None\<rparr>,
          \<lparr>li_id = ''inv-1'', li_amount = ''$1,000.00'', li_name = Some ''Ada'',
           li_email = Some ''ada@example.com'',
           li_image_url = Some ''/customers/ada.png''\<rparr>]"
    using fetchLatestInvoices_edge_cases[where b = "store_backend example_store"
        and r = "\<lparr>data = Some (rev (tbl_invoices example_store)), error = None\<rparr>"
        and d = "rev (tbl_invoices example_store)"
        and ?r2.0 = "\<lparr>data = Some [hd (tbl_customers example_store)], error = None\<rparr>"
        and cs = "[hd (tbl_customers example_store)]"]
    by (simp add: fetchLatestInvoices_def io_defs Let_def store_latest_invoices_query
        store_latest_customers_query delivered_def example_store_def by_date_def
        formatCurrency_def digit_char_def)
qed


section \<open>Claim C9: the three queries of the card summary\<close>

text \<open>
  C9 says that \<^verbatim>\<open>fetchCardData\<close> issues its three queries without waiting for each
  other's results, as the comment above them announces. The function awaits each query
  in a statement of its own: the second request leaves only after the first has settled
  and the third only after the second, and when an earlier one rejects the later ones
  are never issued.
\<close>

theorem fetchCardData_sequential:
  "take 2 (fst (fetchCardData b)) =
     [Issued (Supabase card_invoices_query), Settled (Supabase card_invoices_query)]
   \<and> (from_invoices b card_invoices_query = Resolved r1 \<and>
    from_customers b card_customers_query = Resolved r2 \<and>
    from_invoices b card_status_query = Resolved r3 \<longrightarrow>
      take 6 (fst (fetchCardData b)) =
        [Issued (Supabase card_invoices_query), Settled (Supabase card_invoices_query),
         Issued (Supabase card_customers_query), Settled (Supabase card_customers_query),
         Issued (Supabase card_status_query), Settled (Supabase card_status_query)])
   \<and> (from_invoices b card_invoices_query = Rejected x \<longrightarrow>
        fst (fetchCardData b) =
          [Issued (Supabase card_invoices_query), Settled (Supabase card_invoices_query),
           ConsoleError ''Database Error:'' (Caught x)])
   \<and> (from_invoices b card_invoices_query = Resolved r1 \<and>
      from_customers b card_customers_query = Rejected x \<longrightarrow>
        fst (fetchCardData b) =
          [Issued (Supabase card_invoices_query), Settled (Supabase card_invoices_query),
           Issued (Supabase card_customers_query), Settled (Supabase card_customers_query),
           ConsoleError ''Database Error:'' (Caught x)])"
  using fetchCardData_first_settles fetchCardData_all_settled fetchCardData_rejections
  by simp

theorem fetchCardData_sequential_witness:
  "take 6 (fst (fetchCardData (store_backend example_store))) =
     [Issued (Supabase card_invoices_query), Settled (Supabase card_invoices_query),
      Issued (Supabase card_customers_query), Settled (Supabase card_customers_query),
      Issued (Supabase card_status_query), Settled (Supabase card_status_query)]
   \<and> fst (fetchCardData unreachable) =
     [Issued (Supabase card_invoices_query), Settled (Supabase card_invoices_query),
      ConsoleError ''Database Error:'' (Caught (Error ''fetch failed''))]
   \<and> fst (fetchCardData customers_down) =
     [Issued (Supabase card_invoices_query), Settled (Supabase card_invoices_query),
      Issued (Supabase card_customers_query), Settled (Supabase card_customers_query),
      ConsoleError ''Database Error:'' (Caught (Error ''fetch failed''))]"
proof (intro conjI)
  show "take 6 (fst (fetchCardData (store_backend example_store))) =
     [Issued (Supabase card_invoices_query), Settled (Supabase card_invoices_query),
      Issued (Supabase card_customers_query), Settled (Supabase card_customers_query),
      Issued (Supabase card_status_query), Settled (Supabase card_status_query)]"
    using fetchCardData_sequential[where b = "store_backend example_store"
        and ?r1.0 = "\<lparr>data = Some (tbl_invoices example_store), error = None\<rparr>"
        and ?r2.0 = "\<lparr>data = Some (tbl_customers example_store), error = None\<rparr>"
        and ?r3.0 = "\<lparr>data = Some (tbl_invoices example_store), error = None\<rparr>"]
    by (simp add: store_backend_def store_from_invoices_def store_from_customers_def
        builder_defs well_ranged_def window_def delivered_def)
  show "fst (fetchCardData unreachable) =
     [Issued (Supabase card_invoices_query), Settled (Supabase card_invoices_query),
      ConsoleError ''Database Error:'' (Caught (Error ''fetch failed''))]"
    using fetchCardData_sequential[where b = unreachable and x = "Error ''fetch failed''"]
    by (simp add: unreachable_def)
  show "fst (fetchCardData customers_down) =
     [Issued (Supabase card_invoices_query), Settled (Supabase card_invoices_query),
      Issued (Supabase card_customers_query), Settled (Supabase card_customers_query),
      ConsoleError ''Database Error:'' (Caught (Error ''fetch failed''))]"
    using fetchCardData_sequential[where b = customers_down and x = "Error ''fetch failed''"
        and ?r1.0 = "\<lparr>data = Some (tbl_invoices example_store), error = None\<rparr>"]
    by (simp add: customers_down_def store_backend_def store_from_invoices_def
        builder_defs well_ranged_def window_def delivered_def)
qed


section \<open>Claim C10: absent data sets in the card summary\<close>

text \<open>
  C10 says that, when no query reports an error and one or more data sets are absent, both
  totals are the formatter's text of 0. With the customers' data set absent and the two
  invoices of the example store delivered by the first query, no error reported, the
  function returns the totals \<^verbatim>\<open>$1,000.00\<close> and \<^verbatim>\<open>$500.00\<close>; the formatter's text of 0 is
  \<^verbatim>\<open>$0.00\<close>.
\<close>

theorem fetchCardData_totals_with_absent_customers:
  "from_invoices customers_absent card_invoices_query =
     Resolved \<lparr>data = Some (tbl_invoices example_store), error = None\<rparr>
   \<and> from_customers customers_absent card_customers_query =
     Resolved \<lparr>data = None, error = None\<rparr>
   \<and> from_invoices customers_absent card_status_query =
     Resolved \<lparr>data = Some (tbl_invoices example_store), error = None\<rparr>
   \<and> snd (fetchCardData customers_absent) =
     Inr \<lparr>numberOfCustomers = 0, numberOfInvoices = 2,
          totalPaidInvoices = ''$1,000.00'', totalPendingInvoices = ''$500.00''\<rparr>
   \<and> formatCurrency 0 = ''$0.00''"
proof -
  have answers:
    "from_invoices customers_absent card_invoices_query =
       Resolved \<lparr>data = Some (tbl_invoices example_store), error = None\<rparr>"
    "from_customers customers_absent card_customers_query =
       Resolved \<lparr>data = None, error = None\<rparr>"
    "from_invoices customers_absent card_status_query =
       Resolved \<lparr>data = Some (tbl_invoices example_store), error = None\<rparr>"
    using store_card_queries[of example_store]
    by (simp_all add: customers_absent_def delivered_def absent_def)
  have "snd (fetchCardData customers_absent) =
     Inr \<lparr>numberOfCustomers = 0, numberOfInvoices = 2,
          totalPaidInvoices = ''$1,000.00'', totalPendingInvoices = ''$500.00''\<rparr>"
    by (simp add: fetchCardData_resolved[OF answers] rows_of_def)
       (simp add: example_store_def total_with_status_def formatCurrency_def digit_char_def)
  moreover have "formatCurrency 0 = ''$0.00''"
    by (simp add: formatCurrency_def digit_char_def)
  ultimately show ?thesis
    using answers by simp
qed

text \<open>
  C10, as the code has it. When none of the three queries reports an error and at least
  one data set is absent, \<^verbatim>\<open>fetchCardData\<close> returns. The number of invoices is 0 and both
  totals are the formatter's text of 0 when the data set of the first query, the one the
  counts and sums are read from, is absent; with that data set present the totals are
  the formatter's text of the paid and of the pending sum over its rows, whichever other
  data set is absent. The number of customers is 0 when the customers' data set is
  absent.
\<close>

theorem fetchCardData_absent_data:
  "from_invoices b card_invoices_query = Resolved r1 \<and>
   from_customers b card_customers_query = Resolved r2 \<and>
   from_invoices b card_status_query = Resolved r3 \<and>
   error r1 = None \<and> error r2 = None \<and> error r3 = None \<and>
   (data r1 = None \<or> data r2 = None \<or> data r3 = None) \<longrightarrow>
     (\<exists>cd. snd (fetchCardData b) = Inr cd \<and>
        (data r1 = None \<longrightarrow>
           numberOfInvoices cd = 0 \<and> totalPaidInvoices cd = formatCurrency 0 \<and>
           totalPendingInvoices cd = formatCurrency 0) \<and>
        (data r2 = None \<longrightarrow> numberOfCustomers cd = 0) \<and>
        (\<forall>d. data r1 = Some d \<longrightarrow>
           numberOfInvoices cd = length d \<and>
           totalPaidInvoices cd = formatCurrency (total_with_status ''paid'' d) \<and>
           totalPendingInvoices cd = formatCurrency (total_with_status ''pending'' d)))"
proof
  assume h: "from_invoices b card_invoices_query = Resolved r1 \<and>
   from_customers b card_customers_query = Resolved r2 \<and>
   from_invoices b card_status_query = Resolved r3 \<and>
   error r1 = None \<and> error r2 = None \<and> error r3 = None \<and>
   (data r1 = None \<or> data r2 = None \<or> data r3 = None)"
  then have "snd (fetchCardData b) =
      Inr \<lparr>numberOfCustomers = length (rows_of r2),
           numberOfInvoices = length (rows_of r1),
           totalPaidInvoices = formatCurrency (total_with_status ''paid'' (rows_of r1)),
           totalPendingInvoices =
             formatCurrency (total_with_status ''pending'' (rows_of r1))\<rparr>"
    by (simp add: fetchCardData_resolved)
  then show "\<exists>cd. snd (fetchCardData b) = Inr cd \<and>
        (data r1 = None \<longrightarrow>
           numberOfInvoices cd = 0 \<and> totalPaidInvoices cd = formatCurrency 0 \<and>
           totalPendingInvoices cd = formatCurrency 0) \<and>
        (data r2 = None \<longrightarrow> numberOfCustomers cd = 0) \<and>
        (\<forall>d. data r1 = Some d \<longrightarrow>
           numberOfInvoices cd = length d \<and>
           totalPaidInvoices cd = formatCurrency (total_with_status ''paid'' d) \<and>
           totalPendingInvoices cd = formatCurrency (total_with_status ''pending'' d))"
    by (simp add: rows_of_def total_with_status_def)
qed

theorem fetchCardData_absent_data_witness:
  "snd (fetchCardData silent) =
     Inr \<lparr>numberOfCustomers = 0, numberOfInvoices = 0,
          totalPaidInvoices = formatCurrency 0, totalPendingInvoices = formatCurrency 0\<rparr>
   \<and> numberOfCustomers (projr (snd (fetchCardData customers_absent))) = 0
   \<and> totalPaidInvoices (projr (snd (fetchCardData customers_absent))) =
       formatCurrency (total_with_status ''paid'' (tbl_invoices example_store))"
proof -
  obtain cd where cd: "snd (fetchCardData silent) = Inr cd"
      "numberOfInvoices cd = 0" "totalPaidInvoices cd = formatCurrency 0"
      "totalPendingInvoices cd = formatCurrency 0" "numberOfCustomers cd = 0"
    using fetchCardData_absent_data[where b = silent
        and ?r1.0 = "\<lparr>data = None, error = None\<rparr>" and ?r2.0 = "\<lparr>data = None, error = None\<rparr>"
        and ?r3.0 = "\<lparr>data = None, error = None\<rparr>"]
    by (auto simp add: silent_answers)
  then have first: "snd (fetchCardData silent) =
     Inr \<lparr>numberOfCustomers = 0, numberOfInvoices = 0,
          totalPaidInvoices = formatCurrency 0, totalPendingInvoices = formatCurrency 0\<rparr>"
    by (cases cd) simp
  have answers:
    "from_invoices customers_absent card_invoices_query =
       Resolved \<lparr>data = Some (tbl_invoices example_store), error = None\<rparr>"
    "from_customers customers_absent card_customers_query =
       Resolved \<lparr>data = None, error = None\<rparr>"
    "from_invoices customers_absent card_status_query =
       Resolved \<lparr>data = Some (tbl_invoices example_store), error = None\<rparr>"
    using store_card_queries[of example_store]
    by (simp_all add: customers_absent_def delivered_def absent_def)
  obtain cd' where cd': "snd (fetchCardData customers_absent) = Inr cd'"
      "numberOfCustomers cd' = 0"
      "totalPaidInvoices cd' =
         formatCurrency (total_with_status ''paid'' (tbl_invoices example_store))"
    using fetchCardData_absent_data[where b = customers_absent
        and ?r1.0 = "\<lparr>data = Some (tbl_invoices example_store), error = None\<rparr>"
        and ?r2.0 = "\<lparr>data = None, error = None\<rparr>"
        and ?r3.0 = "\<lparr>data = Some (tbl_invoices example_store), error = None\<rparr>"]
    by (auto simp add: answers)
  show ?thesis
    using first cd' by simp
qed


end
